theory Spec2Isabelle
  imports Complex_Main
begin

section \<open>Floating-point results of numpy's elementwise operations\<close>

text \<open>
  The arithmetic of the simulation is carried out on the reals.  Where numpy leaves the
  finite numbers (a division by zero, an inverse cosine outside \<open>[-1, 1]\<close>) it does
  not raise: it emits a warning and returns \<open>inf\<close>, \<open>-inf\<close> or \<open>nan\<close>.  These
  results are values of the model.
\<close>

datatype npfloat = Fin real | PInf | NInf | NaN

text \<open>\<^verbatim>\<open>a / b\<close> on numpy floats; a zero divisor is taken as \<open>+0.0\<close>.\<close>

definition np_divide :: "real \<Rightarrow> real \<Rightarrow> npfloat" where
  "np_divide a b =
     (if b \<noteq> 0 then Fin (a / b)
      else if a = 0 then NaN
      else if 0 < a then PInf else NInf)"

fun np_arctan :: "npfloat \<Rightarrow> npfloat" where
  "np_arctan (Fin x) = Fin (arctan x)"
| "np_arctan PInf = Fin (pi / 2)"
| "np_arctan NInf = Fin (- (pi / 2))"
| "np_arctan NaN = NaN"

definition np_arccos :: "real \<Rightarrow> npfloat" where
  "np_arccos z = (if - 1 \<le> z \<and> z \<le> 1 then Fin (arccos z) else NaN)"

text \<open>\<^verbatim>\<open>a - t\<close> for a finite \<open>a\<close>.\<close>

fun np_rsub :: "real \<Rightarrow> npfloat \<Rightarrow> npfloat" where
  "np_rsub a (Fin t) = Fin (a - t)"
| "np_rsub a PInf = NInf"
| "np_rsub a NInf = PInf"
| "np_rsub a NaN = NaN"

section \<open>Spherical coordinate utilities (angular\_resolution.py)\<close>

type_synonym unit_vector = "real \<times> real \<times> real"

definition icrs_to_unit_vector :: "real \<Rightarrow> real \<Rightarrow> unit_vector" where
  "icrs_to_unit_vector ra dec =
     (let theta = pi / 2 - dec;
          phi = ra;
          x = sin theta * cos phi;
          y = sin theta * sin phi;
          z = cos theta
      in (x, y, z))"

definition unit_vector_to_icrs :: "unit_vector \<Rightarrow> npfloat \<times> npfloat" where
  "unit_vector_to_icrs unit_vector =
     (case unit_vector of (x, y, z) \<Rightarrow>
        let phi = np_arctan (np_divide y x);
            theta = np_arccos z;
            ra = phi;
            dec = np_rsub (pi / 2) theta
        in (ra, dec))"

section \<open>Uniform sphere sampler (simulator.py)\<close>

definition spherical_to_icrs :: "real \<Rightarrow> real \<Rightarrow> real \<times> real" where
  "spherical_to_icrs theta phi =
     (let ra = phi;
          dec = pi / 2 - theta
      in (ra, dec))"

text \<open>
  The generator of \<^verbatim>\<open>np.random\<close> is a state of an arbitrary type \<open>'g\<close>; a draw
  returns the value drawn and the next state.  \<^verbatim>\<open>np.random.uniform(0, 1)\<close> returns
  a number of \<open>[0, 1)\<close>, so the argument of the inverse cosine below lies in \<open>[-1, 1)\<close>.
  \<open>poisson lam\<close> is \<^verbatim>\<open>np.random.poisson(lam)\<close>; \<open>choice n p\<close> draws the position of
  the element that \<^verbatim>\<open>np.random.choice(a, p=p)\<close> returns, for a sequence \<open>a\<close> of \<open>n\<close>
  elements.  Both validate their arguments and may raise.
\<close>

datatype error = TypeError | ValueError | IndexError | AttributeError | NameError

record 'g np_random =
  uniform :: "'g \<Rightarrow> real \<times> 'g"
  poisson :: "real \<Rightarrow> 'g \<Rightarrow> error + (int \<times> 'g)"
  choice :: "nat \<Rightarrow> npfloat list \<Rightarrow> 'g \<Rightarrow> error + (nat \<times> 'g)"

definition sphere_sample :: "'g np_random \<Rightarrow> real \<Rightarrow> 'g \<Rightarrow> (real \<times> real) \<times> 'g" where
  "sphere_sample rnd radius g =
     (case uniform rnd g of (u, g1) \<Rightarrow>
      case uniform rnd g1 of (v, g2) \<Rightarrow>
        let phi = 2 * pi * u;
            theta = arccos (2 * v - 1)
        in (spherical_to_icrs theta phi, g2))"

definition choice_from :: "'g np_random \<Rightarrow> 'a list \<Rightarrow> npfloat list \<Rightarrow> 'g \<Rightarrow> error + ('a \<times> 'g)" where
  "choice_from rnd a p g =
     (case choice rnd (length a) p g of
        Inl e \<Rightarrow> Inl e
      | Inr (i, g1) \<Rightarrow> if i < length a then Inr (a ! i, g1) else Inl IndexError)"

section \<open>Float64 arithmetic\<close>

text \<open>
  The sum and the quotients of the yield weighting are float64 operations: each returns
  the exact result rounded, or an infinity when it overflows.  The two operations are
  parameters of the model, on finite operands (the divisor not zero); what is known of
  them is stated where it is used.
\<close>

record float64 =
  fadd :: "real \<Rightarrow> real \<Rightarrow> npfloat"
  fdiv :: "real \<Rightarrow> real \<Rightarrow> npfloat"

fun float_add :: "float64 \<Rightarrow> npfloat \<Rightarrow> real \<Rightarrow> npfloat" where
  "float_add F (Fin a) x = fadd F a x"
| "float_add F PInf x = PInf"
| "float_add F NInf x = NInf"
| "float_add F NaN x = NaN"

text \<open>Python's \<^verbatim>\<open>sum\<close>: the additions from the left, starting from \<open>0\<close>.\<close>

fun py_sum_from :: "float64 \<Rightarrow> npfloat \<Rightarrow> real list \<Rightarrow> npfloat" where
  "py_sum_from F acc [] = acc"
| "py_sum_from F acc (x # xs) = py_sum_from F (float_add F acc x) xs"

definition py_sum :: "float64 \<Rightarrow> real list \<Rightarrow> npfloat" where
  "py_sum F xs = py_sum_from F (Fin 0) xs"

text \<open>
  \<^verbatim>\<open>x / s\<close> for a finite \<open>x\<close>: a zero divisor gives \<open>nan\<close> or an infinity, an infinite
  divisor gives \<open>0\<close>.
\<close>

fun float_divide :: "float64 \<Rightarrow> real \<Rightarrow> npfloat \<Rightarrow> npfloat" where
  "float_divide F x (Fin s) = (if s \<noteq> 0 then fdiv F x s else np_divide x 0)"
| "float_divide F x PInf = Fin 0"
| "float_divide F x NInf = Fin 0"
| "float_divide F x NaN = NaN"

section \<open>Sources and detector (collaborators of the simulator)\<close>

text \<open>
  Modelled from the spec: the modules \<^verbatim>\<open>source_model\<close>, \<^verbatim>\<open>detector\<close> and
  \<^verbatim>\<open>neutrino_calculator\<close> are imported by simulator.py and are not part of the
  sources at hand.  A source has a spatial type, \<open>POINT\<close> or \<open>DIFFUSE\<close>, and a spectral
  model with an upper energy bound, a spectral index and a sampling operation returning
  a sequence of true energies.  A detector bundles an effective area (a detection
  probability for a true energy, a cos-zenith and an energy cutoff), an energy resolution
  (a sampler of reconstructed energies) and an angular resolution (a sampler of
  reconstructed directions, which may raise).  The neutrino calculator returns one
  expected count per source for a livetime and a cos-zenith cutoff; an expected count is
  a number that is not negative.
\<close>

datatype source_type = DIFFUSE | POINT

record 'g flux_model =
  upper_energy :: real
  spectral_index :: real
  flux_sample :: "nat \<Rightarrow> 'g \<Rightarrow> real list \<times> 'g"

record 'g source =
  source_type :: source_type
  flux_model :: "'g flux_model"

record 'g detector =
  detection_probability :: "real \<Rightarrow> real \<Rightarrow> real \<Rightarrow> real"
  energy_resolution_sample :: "real \<Rightarrow> 'g \<Rightarrow> real \<times> 'g"
  angular_resolution_sample ::
    "real \<Rightarrow> real \<Rightarrow> real \<Rightarrow> 'g \<Rightarrow> error + ((npfloat \<times> npfloat) \<times> 'g)"

typedef expected_count = "{x :: real. 0 \<le> x}"
  by (rule exI [of _ 0]) simp

definition count_of :: "real \<Rightarrow> expected_count" where
  "count_of x = Abs_expected_count (max 0 x)"

record 'g world =
  rnd :: "'g np_random"
  arith :: float64
  nu_calc :: "'g source list \<Rightarrow> 'g detector \<Rightarrow> real \<Rightarrow> real \<Rightarrow> expected_count list"

section \<open>The simulator (simulator.py)\<close>

text \<open>
  The attributes of a \<open>Simulator\<close> object.  The constructor stores the sources in
  \<^verbatim>\<open>_sources\<close>, always a list, which the property \<open>sources\<close> returns.  \<open>run\<close> and \<open>save\<close>
  read another attribute, \<^verbatim>\<open>self.source\<close>.  The class defines none of this name (the
  decorator \<^verbatim>\<open>@source.setter\<close> refers to a name that is bound nowhere) and the
  constructor binds none: the field \<open>source\<close> is \<open>None\<close> on a constructed object, where
  reading the attribute raises \<open>AttributeError\<close>, and \<open>Some xs\<close> on an object on which the
  attribute has been bound to the list \<open>xs\<close>.
\<close>

datatype skycoord = SkyCoord npfloat npfloat

text \<open>
  A sky coordinate holds the two angles (in radians, ICRS frame) its constructor is given.
  The constructor validates the latitude: an angle outside \<open>[-\<pi>/2, \<pi>/2]\<close> raises
  \<open>ValueError\<close> (a \<open>nan\<close> passes the comparison).
\<close>

fun valid_latitude :: "npfloat \<Rightarrow> bool" where
  "valid_latitude (Fin d) = (- (pi / 2) \<le> d \<and> d \<le> pi / 2)"
| "valid_latitude NaN = True"
| "valid_latitude PInf = False"
| "valid_latitude NInf = False"

definition SkyCoord_icrs :: "npfloat \<Rightarrow> npfloat \<Rightarrow> error + skycoord" where
  "SkyCoord_icrs lon lat = (if valid_latitude lat then Inr (SkyCoord lon lat) else Inl ValueError)"

record 'g simulator =
  sources :: "'g source list"
  source :: "'g source list option"
  detector :: "'g detector"
  max_cosz :: real
  time :: real
  Nex :: "real list"
  source_weights :: "npfloat list"
  N_total :: int
  true_energy :: "real list"
  reco_energy :: "real list"
  coordinate :: "skycoord list"
  ras :: "real list"
  decs :: "real list"
  source_label :: "nat list"

text \<open>\<^verbatim>\<open>np.array(Nex) / sum(Nex)\<close>: an elementwise float64 division by the float64 total.\<close>

definition weights_of :: "float64 \<Rightarrow> real list \<Rightarrow> npfloat list" where
  "weights_of F nex = map (\<lambda>x. float_divide F x (py_sum F nex)) nex"

definition get_expected_number :: "'g world \<Rightarrow> 'g simulator \<Rightarrow> 'g simulator" where
  "get_expected_number w self =
     (let nex = map Rep_expected_count
                  (nu_calc w (sources self) (detector self) (time self) (max_cosz self))
      in self\<lparr>Nex := nex, source_weights := weights_of (arith w) nex\<rparr>)"

text \<open>
  One pass through the body of the \<^verbatim>\<open>while not accepted\<close> loop: a thrown neutrino and
  the outcome of its acceptance test.  The first statement of the body reads
  \<^verbatim>\<open>self.source[label]\<close>.
\<close>

record trial =
  Etrue :: real
  trial_ra :: real
  trial_dec :: real
  cosz :: real
  detection_prob :: real
  accepted :: bool

definition throw :: "'g world \<Rightarrow> 'g simulator \<Rightarrow> nat \<Rightarrow> 'g \<Rightarrow> error + (trial \<times> 'g)" where
  "throw w self label g =
     (case source self of
        None \<Rightarrow> Inl AttributeError
      | Some srcs \<Rightarrow>
         if \<not> label < length srcs then Inl IndexError
         else
           let max_energy = upper_energy (flux_model (srcs ! label)) in
           case flux_sample (flux_model (srcs ! label)) 1 g of (es, g1) \<Rightarrow>
           (case es of
              [] \<Rightarrow> Inl IndexError
            | e # _ \<Rightarrow>
               (case sphere_sample (rnd w) 1 g1 of ((ra, dec), g2) \<Rightarrow>
                  let cz = - sin dec;
                      p = (if cz > max_cosz self then 0
                           else detection_probability (detector self) e cz max_energy)
                  in (case choice_from (rnd w) [True, False] [Fin p, Fin (1 - p)] g2 of
                        Inl err \<Rightarrow> Inl err
                      | Inr (acc, g3) \<Rightarrow>
                          Inr (\<lparr>Etrue = e, trial_ra = ra, trial_dec = dec, cosz = cz,
                                detection_prob = p, accepted = acc\<rparr>, g3)))))"

text \<open>
  The rejection loop has no bound on its iterations: \<open>None\<close> is a loop that never
  accepts.  \<open>Some (Inl e)\<close> is an exception that leaves the loop, and with it \<open>run\<close>.
  The body assigns local variables only.
\<close>

partial_function (option) rejection_loop ::
  "'g world \<Rightarrow> 'g simulator \<Rightarrow> nat \<Rightarrow> 'g \<Rightarrow> (error + (trial \<times> 'g)) option" where
  "rejection_loop w self label g =
     (case throw w self label g of
        Inl e \<Rightarrow> Some (Inl e)
      | Inr (t, g1) \<Rightarrow> if accepted t then Some (Inr (t, g1)) else rejection_loop w self label g1)"

text \<open>
  The statements after the loop: the accepted trial becomes an event of the catalog.
  An exception leaves the object as the statements before it have made it: \<open>Inl (e, self')\<close>
  is the exception \<open>e\<close> raised on the object in the state \<open>self'\<close>.
\<close>

definition record_event ::
  "'g simulator \<Rightarrow> nat \<Rightarrow> trial \<Rightarrow> 'g
     \<Rightarrow> (error \<times> 'g simulator) + ('g simulator \<times> 'g)" where
  "record_event self label t g =
     (let self1 = self\<lparr>true_energy := true_energy self @ [Etrue t]\<rparr> in
      case energy_resolution_sample (detector self1) (Etrue t) g of (Ereco, g1) \<Rightarrow>
        let self2 = self1\<lparr>reco_energy := reco_energy self1 @ [Ereco]\<rparr> in
        case source self2 of
          None \<Rightarrow> Inl (AttributeError, self2)
        | Some srcs \<Rightarrow>
           if \<not> label < length srcs then Inl (IndexError, self2)
           else if source_type (srcs ! label) = DIFFUSE then
             (case SkyCoord_icrs (Fin (trial_ra t)) (Fin (trial_dec t)) of
                Inl e \<Rightarrow> Inl (e, self2)
              | Inr c \<Rightarrow>
                 Inr (self2\<lparr>coordinate := coordinate self2 @ [c],
                            ras := ras self2 @ [trial_ra t],
                            decs := decs self2 @ [trial_dec t]\<rparr>, g1))
           else
             (case angular_resolution_sample (detector self2) (Etrue t) (trial_ra t)
                     (trial_dec t) g1 of
                Inl e \<Rightarrow> Inl (e, self2)
              | Inr ((reco_ra, reco_dec), g2) \<Rightarrow>
                 (case SkyCoord_icrs reco_ra reco_dec of
                    Inl e \<Rightarrow> Inl (e, self2)
                  | Inr c \<Rightarrow>
                     Inr (self2\<lparr>coordinate := coordinate self2 @ [c],
                                ras := ras self2 @ [trial_ra t],
                                decs := decs self2 @ [trial_dec t]\<rparr>, g2))))"

text \<open>
  One iteration of the loop over \<^verbatim>\<open>range(self.N)\<close>.  The label is drawn over
  \<^verbatim>\<open>range(len(self.sources))\<close>.
\<close>

definition event ::
  "'g world \<Rightarrow> 'g simulator \<Rightarrow> 'g
     \<Rightarrow> ((error \<times> 'g simulator) + ('g simulator \<times> 'g)) option" where
  "event w self g =
     (case choice_from (rnd w) [0..<length (sources self)] (source_weights self) g of
        Inl e \<Rightarrow> Some (Inl (e, self))
      | Inr (label, g1) \<Rightarrow>
         (case rejection_loop w self label g1 of
            None \<Rightarrow> None
          | Some (Inl e) \<Rightarrow> Some (Inl (e, self))
          | Some (Inr (t, g2)) \<Rightarrow> Some (record_event self label t g2)))"

fun sampling ::
  "nat \<Rightarrow> 'g world \<Rightarrow> 'g simulator \<Rightarrow> 'g
     \<Rightarrow> ((error \<times> 'g simulator) + ('g simulator \<times> 'g)) option" where
  "sampling 0 w self g = Some (Inr (self, g))"
| "sampling (Suc k) w self g =
     (case event w self g of
        None \<Rightarrow> None
      | Some (Inl es) \<Rightarrow> Some (Inl es)
      | Some (Inr (self1, g1)) \<Rightarrow> sampling k w self1 g1)"

text \<open>
  The argument \<open>N\<close> of \<open>run\<close>: \<open>None\<close>, or an integer.  \<^verbatim>\<open>not N\<close> is Python's truth
  test: it holds of \<open>None\<close> and of \<open>0\<close>.  The mean of the Poisson draw is the total of the
  expected counts.
\<close>

definition py_not :: "int option \<Rightarrow> bool" where
  "py_not N = (case N of None \<Rightarrow> True | Some n \<Rightarrow> n = 0)"

definition total_count :: "'g world \<Rightarrow> 'g simulator \<Rightarrow> int option \<Rightarrow> 'g \<Rightarrow> error + (int \<times> 'g)" where
  "total_count w self N g =
     (if py_not N then poisson (rnd w) (sum_list (Nex self)) g
      else (case N of None \<Rightarrow> Inl TypeError | Some n \<Rightarrow> Inr (n, g)))"

definition run ::
  "'g world \<Rightarrow> 'g simulator \<Rightarrow> int option \<Rightarrow> 'g
     \<Rightarrow> ((error \<times> 'g simulator) + ('g simulator \<times> 'g)) option" where
  "run w self N g =
     (let self1 = get_expected_number w self in
      case total_count w self1 N g of
        Inl e \<Rightarrow> Some (Inl (e, self1))
      | Inr (n, g1) \<Rightarrow>
          sampling (nat n) w
            (self1\<lparr>N_total := n, true_energy := [], reco_energy := [], coordinate := [],
                   ras := [], decs := [], source_label := []\<rparr>) g1)"

text \<open>
  \<open>save\<close> creates the datasets of the file in the order of the source.  The fifth
  reads \<^verbatim>\<open>self.source.flux_model\<close>: the attribute \<open>source\<close> is not bound, or it is bound
  to a list, which has no attribute \<open>flux_model\<close>.  Either way the call ends there with
  \<open>AttributeError\<close> and the four arrays written.
\<close>

definition save :: "'g simulator \<Rightarrow> (string \<times> real list) list \<times> (error + unit)" where
  "save self =
     (let f = [];
          f = f @ [(''true_energy'', true_energy self)];
          f = f @ [(''reco_energy'', reco_energy self)];
          f = f @ [(''ra'', ras self)];
          f = f @ [(''dec'', decs self)]
      in (f, Inl AttributeError))"

text \<open>
  The constructor: \<^verbatim>\<open>max_cosz = 1\<close>, \<^verbatim>\<open>time = 1\<close>; it binds no attribute \<open>source\<close>, and
  the other attributes are set by \<open>run\<close>.
\<close>

definition init_simulator :: "'g source list \<Rightarrow> 'g detector \<Rightarrow> 'g simulator" where
  "init_simulator srcs det =
     \<lparr>sources = srcs, source = None, detector = det, max_cosz = 1, time = 1, Nex = [],
      source_weights = [], N_total = 0, true_energy = [], reco_energy = [], coordinate = [],
      ras = [], decs = [], source_label = []\<rparr>"

section \<open>The dispersion sampler (angular\_resolution.py)\<close>

text \<open>
  An \<open>AngularResolution\<close> object holds the table read from the file.  The body of
  \<^verbatim>\<open>_get_angular_resolution(self, Etrue)\<close>, an interpolation of the table, is the field
  \<open>get_angular_resolution\<close>: a function of the true energy.  \<open>sample\<close> calls it with no
  argument, so the body is never entered.
\<close>

record angular_resolution =
  ang_res_values :: "real list"
  true_energy_bins :: "real list"
  get_angular_resolution :: "real \<Rightarrow> real"

text \<open>
  A call of a Python function of one required parameter with the arguments as written,
  and numpy's binary \<^verbatim>\<open>np.power\<close> likewise (on a positive base): any other number of
  arguments raises \<open>TypeError\<close>.
\<close>

fun call1 :: "('a \<Rightarrow> 'b) \<Rightarrow> 'a list \<Rightarrow> error + 'b" where
  "call1 f [x] = Inr (f x)"
| "call1 f args = Inl TypeError"

fun np_power :: "real list \<Rightarrow> error + real" where
  "np_power [x1, x2] = Inr (x1 powr x2)"
| "np_power args = Inl TypeError"

definition rad2deg :: "real \<Rightarrow> real" where
  "rad2deg x = x * 180 / pi"

text \<open>The name \<^verbatim>\<open>sample_VMF\<close> is bound nowhere in the module: its evaluation raises.\<close>

definition sample_VMF :: "unit_vector \<Rightarrow> real \<Rightarrow> nat \<Rightarrow> 'g \<Rightarrow> error + (unit_vector \<times> 'g)" where
  "sample_VMF mu kappa n g = Inl NameError"

definition AngularResolution_sample ::
  "angular_resolution \<Rightarrow> real \<Rightarrow> real \<Rightarrow> real \<Rightarrow> 'g \<Rightarrow> error + ((npfloat \<times> npfloat) \<times> 'g)" where
  "AngularResolution_sample self e ra dec g =
     (let unit_vector = icrs_to_unit_vector ra dec in
      case call1 (get_angular_resolution self) [] of
        Inl err \<Rightarrow> Inl err
      | Inr ang_res \<Rightarrow>
         (case np_power [rad2deg ang_res] of
            Inl err \<Rightarrow> Inl err
          | Inr pw \<Rightarrow>
             (let kappa = 7552 * pw in
              case sample_VMF unit_vector kappa 1 g of
                Inl err \<Rightarrow> Inl err
              | Inr (new_unit_vector, g1) \<Rightarrow> Inr (unit_vector_to_icrs new_unit_vector, g1))))"

section \<open>A concrete scenario\<close>

text \<open>
  A deterministic generator on a counter, two sources with a fixed spectral model
  returning \<open>100\<close>, an effective area of detection probability \<open>1\<close>, an energy resolution
  that doubles the energy and an angular resolution that shifts \<open>ra\<close> by \<open>1/10\<close>.  The
  uniform draw is always \<open>1/2\<close>; \<open>choice\<close> returns the first position of positive
  probability.  Only the point source has a positive expected count.  The arithmetic is
  exact below the largest float64 and overflows above it.
\<close>

fun first_positive :: "npfloat list \<Rightarrow> nat" where
  "first_positive [] = 0"
| "first_positive (Fin x # ps) = (if 0 < x then 0 else Suc (first_positive ps))"
| "first_positive (PInf # ps) = Suc (first_positive ps)"
| "first_positive (NInf # ps) = Suc (first_positive ps)"
| "first_positive (NaN # ps) = Suc (first_positive ps)"

definition scenario_rnd :: "nat np_random" where
  "scenario_rnd =
     \<lparr>uniform = (\<lambda>g. (1 / 2, Suc g)),
      poisson = (\<lambda>lam g. if lam < 0 then Inl ValueError else Inr (\<lfloor>lam\<rfloor>, Suc g)),
      choice = (\<lambda>n p g. if n = 0 \<or> length p \<noteq> n then Inl ValueError
                         else Inr (first_positive p, Suc g))\<rparr>"

definition float64_max :: real where
  "float64_max = (2 - 1 / 2 ^ 52) * 2 ^ 1023"



definition exact_in_range :: "real \<Rightarrow> npfloat" where
  "exact_in_range y =
     (if float64_max < y then PInf else if y < - float64_max then NInf else Fin y)"

definition scenario_arith :: float64 where
  "scenario_arith =
     \<lparr>fadd = (\<lambda>a b. exact_in_range (a + b)), fdiv = (\<lambda>a b. exact_in_range (a / b))\<rparr>"

definition fixed_flux :: "nat flux_model" where
  "fixed_flux =
     \<lparr>upper_energy = 1000, spectral_index = 2,
      flux_sample = (\<lambda>n g. (replicate n 100, Suc g))\<rparr>"

definition scenario_detector :: "nat detector" where
  "scenario_detector =
     \<lparr>detection_probability = (\<lambda>e cz emax. 1),
      energy_resolution_sample = (\<lambda>e g. (2 * e, Suc g)),
      angular_resolution_sample = (\<lambda>e ra dec g. Inr ((Fin (ra + 1 / 10), Fin dec), Suc g))\<rparr>"

definition scenario_world :: "nat world" where
  "scenario_world =
     \<lparr>rnd = scenario_rnd, arith = scenario_arith,
      nu_calc = (\<lambda>srcs det t mc.
                   map (\<lambda>s. if source_type s = POINT then count_of 3 else count_of 0) srcs)\<rparr>"

definition scenario_sources :: "nat source list" where
  "scenario_sources =
     [\<lparr>source_type = DIFFUSE, flux_model = fixed_flux\<rparr>,
      \<lparr>source_type = POINT, flux_model = fixed_flux\<rparr>]"

text \<open>The simulator as its constructor returns it.\<close>

definition constructed_sim :: "nat simulator" where
  "constructed_sim = init_simulator scenario_sources scenario_detector"

text \<open>The same simulator, on which the attribute \<open>source\<close> has been bound to the sources.\<close>

definition scenario_sim :: "nat simulator" where
  "scenario_sim = constructed_sim\<lparr>source := Some scenario_sources\<rparr>"

text \<open>
  The scenario with the angular resolution of angular\_resolution.py as the detector's.
\<close>

definition src_sim :: "angular_resolution \<Rightarrow> nat simulator" where
  "src_sim tbl =
     scenario_sim
       \<lparr>detector := scenario_detector\<lparr>angular_resolution_sample := AngularResolution_sample tbl\<rparr>\<rparr>"

definition accepted_trial :: trial where
  "accepted_trial =
     \<lparr>Etrue = 100, trial_ra = pi, trial_dec = 0, cosz = 0, detection_prob = 1, accepted = True\<rparr>"




section \<open>Properties of the coordinate utilities\<close>

text \<open>
  C10.  The radius handed to \<open>sphere_sample\<close> does not reach its result: with the same
  generator in the same state (hence the same draws \<open>u\<close> and \<open>v\<close>), any two radii give
  the same \<open>(ra, dec)\<close> and leave the generator in the same state.
\<close>

theorem sphere_sample_radius_irrelevant:
  "sphere_sample gen r1 g = sphere_sample gen r2 g"
  by (simp add: sphere_sample_def)

text \<open>
  C6.  The direction \<open>ra = \<pi>\<close>, \<open>dec = 0\<close> lies on the equator, in the half of the
  \<open>(x, y)\<close> plane where \<open>x < 0\<close>.  Its unit vector is \<open>(-1, 0, 0)\<close>, and the inverse
  conversion, which takes the single-argument inverse tangent of \<open>y / x\<close>, returns
  \<open>ra = 0\<close>: the antipodal azimuth.  The round trip does not recover \<open>ra\<close>.
\<close>

theorem unit_vector_roundtrip_fails_at_pi:
  "unit_vector_to_icrs (icrs_to_unit_vector pi 0) = (Fin 0, Fin 0)
   \<and> unit_vector_to_icrs (icrs_to_unit_vector pi 0) \<noteq> (Fin pi, Fin 0)"
  by (simp add: unit_vector_to_icrs_def icrs_to_unit_vector_def np_divide_def np_arccos_def)

text \<open>
  C7.  At the north pole the unit vector is \<open>(0, 0, 1)\<close> (it is what
  \<open>icrs_to_unit_vector\<close> returns for \<open>dec = \<pi>/2\<close>).  The conversion divides \<open>0\<close> by
  \<open>0\<close>; the result is \<open>nan\<close>, its inverse tangent is \<open>nan\<close>, and the \<open>ra\<close> returned is
  \<open>nan\<close>, not \<open>0\<close>.
\<close>

theorem unit_vector_to_icrs_pole_nan:
  "icrs_to_unit_vector 0 (pi / 2) = (0, 0, 1)
   \<and> unit_vector_to_icrs (0, 0, 1) = (NaN, Fin (pi / 2))
   \<and> fst (unit_vector_to_icrs (0, 0, 1)) \<noteq> Fin 0"
  by (simp add: unit_vector_to_icrs_def icrs_to_unit_vector_def np_divide_def np_arccos_def)

text \<open>
  Off the poles the declination is always recovered.  The azimuth is recovered where
  \<open>cos ra > 0\<close>; where \<open>cos ra < 0\<close> the conversion returns \<open>ra - \<pi>\<close>.
\<close>

lemma unit_vector_components:
  "icrs_to_unit_vector ra dec = (cos dec * cos ra, cos dec * sin ra, sin dec)"
  by (simp add: icrs_to_unit_vector_def cos_diff sin_diff)

lemma roundtrip_dec:
  assumes "- (pi / 2) \<le> dec" "dec \<le> pi / 2"
  shows "np_rsub (pi / 2) (np_arccos (sin dec)) = Fin dec"
proof -
  have "arccos (sin dec) = arccos (cos (pi / 2 - dec))"
    by (simp add: cos_diff)
  also have "\<dots> = pi / 2 - dec"
    using assms by (intro arccos_cos) simp_all
  finally show ?thesis by (simp add: np_arccos_def)
qed

lemma roundtrip_front:
  assumes "- (pi / 2) < ra" "ra < pi / 2" "- (pi / 2) < dec" "dec < pi / 2"
  shows "unit_vector_to_icrs (icrs_to_unit_vector ra dec) = (Fin ra, Fin dec)"
proof -
  have c: "0 < cos dec" "0 < cos ra"
    using assms by (simp_all add: cos_gt_zero_pi)
  then have "cos dec * sin ra / (cos dec * cos ra) = tan ra"
    by (simp add: tan_def)
  moreover have "arctan (tan ra) = ra"
    using assms by (simp add: arctan_tan)
  ultimately show ?thesis
    using c roundtrip_dec [of dec] assms
    by (simp add: unit_vector_components unit_vector_to_icrs_def np_divide_def)
qed

lemma roundtrip_back:
  assumes "pi / 2 < ra" "ra < 3 * pi / 2" "- (pi / 2) < dec" "dec < pi / 2"
  shows "unit_vector_to_icrs (icrs_to_unit_vector ra dec) = (Fin (ra - pi), Fin dec)"
proof -
  have c: "0 < cos dec"
    using assms by (simp add: cos_gt_zero_pi)
  have "cos ra = - cos (ra - pi)" by (simp add: cos_diff)
  moreover have "0 < cos (ra - pi)"
    using assms by (intro cos_gt_zero_pi) simp_all
  ultimately have n: "cos ra < 0" by simp
  with c have "cos dec * sin ra / (cos dec * cos ra) = tan ra"
    by (simp add: tan_def)
  moreover have "tan ra = tan (ra - pi)"
    by (simp add: tan_def cos_diff sin_diff)
  moreover have "arctan (tan (ra - pi)) = ra - pi"
    using assms by (intro arctan_tan) simp_all
  ultimately show ?thesis
    using c n roundtrip_dec [of dec] assms
    by (simp add: unit_vector_components unit_vector_to_icrs_def np_divide_def)
qed

section \<open>The scenario, evaluated\<close>

lemma Rep_count_of: "Rep_expected_count (count_of x) = max 0 x"
  by (simp add: count_of_def Abs_expected_count_inverse)


lemma float64_max_bounds: "2 ^ 1023 \<le> float64_max" "float64_max < 2 ^ 1024"
proof -
  have "(1::real) \<le> 2 - 1 / 2 ^ 52" by simp
  then have "1 * 2 ^ 1023 \<le> (2 - 1 / 2 ^ 52) * (2::real) ^ 1023"
    by (intro mult_right_mono) simp_all
  then show "2 ^ 1023 \<le> float64_max" by (simp add: float64_max_def)
  have "(2 - 1 / 2 ^ 52) * (2::real) ^ 1023 < 2 * 2 ^ 1023"
    by (intro mult_strict_right_mono) simp_all
  then show "float64_max < 2 ^ 1024" by (simp add: float64_max_def)
qed

lemma exact_in_range_small:
  assumes "\<bar>y\<bar> \<le> 2 ^ 1023"
  shows "exact_in_range y = Fin y"
  using assms float64_max_bounds(1) by (auto simp: exact_in_range_def)

lemma exact_in_range_values [simp]:
  "exact_in_range 0 = Fin 0" "exact_in_range 1 = Fin 1" "exact_in_range 3 = Fin 3"
  by (rule exact_in_range_small; simp)+

lemma scenario_sphere_sample: "sphere_sample scenario_rnd r g = ((pi, 0), Suc (Suc g))"
  by (simp add: sphere_sample_def scenario_rnd_def spherical_to_icrs_def)

lemma scenario_choice:
  "choice_from scenario_rnd [True, False] [Fin 1, Fin 0] g = Inr (True, Suc g)"
  "choice_from scenario_rnd [True, False] [Fin 0, Fin 1] g = Inr (False, Suc g)"
  "choice_from scenario_rnd [0, Suc 0] [Fin 0, Fin 1] g = Inr (Suc 0, Suc g)"
  by (simp_all add: choice_from_def scenario_rnd_def)

lemma scenario_fields:
  "sources scenario_sim = scenario_sources"
  "source scenario_sim = Some scenario_sources"
  "detector scenario_sim = scenario_detector"
  "max_cosz scenario_sim = 1"
  "time scenario_sim = 1"
  "true_energy scenario_sim = []"
  "reco_energy scenario_sim = []"
  "coordinate scenario_sim = []"
  "ras scenario_sim = []"
  "decs scenario_sim = []"
  "source_label scenario_sim = []"
  "rnd scenario_world = scenario_rnd"
  "arith scenario_world = scenario_arith"
  "length scenario_sources = Suc (Suc 0)"
  by (simp_all add: scenario_sim_def constructed_sim_def init_simulator_def scenario_world_def
        scenario_sources_def)

lemma scenario_weights:
  "weights_of scenario_arith [0, 3] = [Fin 0, Fin 1]"
  by (simp add: weights_of_def py_sum_def scenario_arith_def)

lemma scenario_counts:
  "map Rep_expected_count (nu_calc scenario_world scenario_sources d t mc) = [0, 3]"
  by (simp add: scenario_world_def scenario_sources_def Rep_count_of)

lemma scenario_expected:
  "get_expected_number scenario_world scenario_sim =
     scenario_sim\<lparr>Nex := [0, 3], source_weights := [Fin 0, Fin 1]\<rparr>"
  by (simp add: get_expected_number_def scenario_fields scenario_counts scenario_weights)

lemma constructed_fields:
  "sources constructed_sim = scenario_sources"
  "source constructed_sim = None"
  "detector constructed_sim = scenario_detector"
  "time constructed_sim = 1"
  "max_cosz constructed_sim = 1"
  by (simp_all add: constructed_sim_def init_simulator_def)

lemma constructed_expected:
  "get_expected_number scenario_world constructed_sim =
     constructed_sim\<lparr>Nex := [0, 3], source_weights := [Fin 0, Fin 1]\<rparr>"
  by (simp add: get_expected_number_def constructed_fields scenario_fields scenario_counts
        scenario_weights)

lemma src_sim_fields:
  "sources (src_sim tbl) = scenario_sources"
  "source (src_sim tbl) = Some scenario_sources"
  "detection_probability (detector (src_sim tbl)) = (\<lambda>e cz emax. 1)"
  "energy_resolution_sample (detector (src_sim tbl)) = (\<lambda>e g. (2 * e, Suc g))"
  "angular_resolution_sample (detector (src_sim tbl)) = AngularResolution_sample tbl"
  "max_cosz (src_sim tbl) = 1"
  "time (src_sim tbl) = 1"
  by (simp_all add: src_sim_def scenario_fields scenario_detector_def)

lemma src_sim_expected:
  "get_expected_number scenario_world (src_sim tbl) =
     (src_sim tbl)\<lparr>Nex := [0, 3], source_weights := [Fin 0, Fin 1]\<rparr>"
  by (simp add: get_expected_number_def src_sim_fields scenario_fields scenario_counts
        scenario_weights)

section \<open>The event loop\<close>

text \<open>What the rejection loop returns is an accepted trial, the outcome of one pass.\<close>

lemma rejection_loop_result:
  assumes "rejection_loop w self label g = Some r"
  shows "case r of Inl e \<Rightarrow> True
         | Inr (t, g') \<Rightarrow> accepted t \<and> (\<exists>g0. throw w self label g0 = Inr (t, g'))"
  using assms
proof (rule rejection_loop.raw_induct [rotated 1,
         where P = "\<lambda>w self label g r. case r of Inl e \<Rightarrow> True
           | Inr (t, g') \<Rightarrow> accepted t \<and> (\<exists>g0. throw w self label g0 = Inr (t, g'))"], goal_cases)
  case (1 f w self label g y)
  show ?case
  proof (cases "throw w self label g")
    case (Inl e)
    with 1(2) show ?thesis by auto
  next
    case (Inr p)
    obtain t g1 where p: "p = (t, g1)" by (cases p)
    show ?thesis
    proof (cases "accepted t")
      case True
      with 1(2) Inr p show ?thesis by auto
    next
      case False
      with 1(2) Inr p have "f w self label g1 = Some y" by simp
      from 1(1) [OF this] show ?thesis .
    qed
  qed
qed

lemma rejection_loop_accepts:
  "rejection_loop w self label g = Some (Inr (t, g')) \<Longrightarrow>
     accepted t \<and> (\<exists>g0. throw w self label g0 = Inr (t, g'))"
  using rejection_loop_result [of w self label g "Inr (t, g')"] by simp

lemma event_steps:
  assumes "event w self g = Some (Inr (self', g'))"
  shows "\<exists>label t ga gb. throw w self label ga = Inr (t, gb) \<and> accepted t
            \<and> record_event self label t gb = Inr (self', g')"
proof -
  from assms obtain label g1 where
    c: "choice_from (rnd w) [0..<length (sources self)] (source_weights self) g = Inr (label, g1)"
    by (auto simp: event_def split: sum.splits)
  with assms obtain t g2 where
    l: "rejection_loop w self label g1 = Some (Inr (t, g2))"
    and r: "record_event self label t g2 = Inr (self', g')"
    by (auto simp: event_def split: sum.splits option.splits)
  from rejection_loop_accepts [OF l] r show ?thesis by blast
qed

lemma record_event_fields:
  assumes "record_event self label t g = Inr (self', g')"
  shows "true_energy self' = true_energy self @ [Etrue t]"
    and "reco_energy self' = reco_energy self @ [fst (energy_resolution_sample (detector self) (Etrue t) g)]"
    and "ras self' = ras self @ [trial_ra t]"
    and "decs self' = decs self @ [trial_dec t]"
    and "source_label self' = source_label self"
    and "N_total self' = N_total self"
    and "sources self' = sources self"
    and "detector self' = detector self"
    and "length (coordinate self') = Suc (length (coordinate self))"
  using assms
  by (auto simp: record_event_def Let_def SkyCoord_icrs_def
      split: prod.splits if_splits sum.splits option.splits)

lemma scenario_throw:
  assumes "source self = Some scenario_sources"
    "detection_probability (detector self) = (\<lambda>e cz emax. 1)"
    "max_cosz self = 1"
  shows "throw scenario_world self (Suc 0) g = Inr (accepted_trial, Suc (Suc (Suc (Suc g))))"
  by (simp add: throw_def assms scenario_fields scenario_sphere_sample scenario_choice
        fixed_flux_def scenario_detector_def accepted_trial_def scenario_sources_def)

lemma scenario_rejection_loop:
  assumes "source self = Some scenario_sources"
    "detection_probability (detector self) = (\<lambda>e cz emax. 1)"
    "max_cosz self = 1"
  shows "rejection_loop scenario_world self (Suc 0) g
           = Some (Inr (accepted_trial, Suc (Suc (Suc (Suc g)))))"
  by (subst rejection_loop.simps) (simp add: scenario_throw [OF assms] accepted_trial_def)

lemma scenario_event:
  assumes "sources self = scenario_sources" "source self = Some scenario_sources"
    "detector self = scenario_detector"
    "max_cosz self = 1" "source_weights self = [Fin 0, Fin 1]"
  shows "event scenario_world self g
     = Some (Inr (self\<lparr>true_energy := true_energy self @ [100],
                        reco_energy := reco_energy self @ [200],
                        coordinate := coordinate self @ [SkyCoord (Fin (pi + 1 / 10)) (Fin 0)],
                        ras := ras self @ [pi], decs := decs self @ [0]\<rparr>,
                  g + 7))"
  by (simp add: event_def assms scenario_fields scenario_choice
        scenario_rejection_loop record_event_def accepted_trial_def
        scenario_detector_def scenario_sources_def SkyCoord_icrs_def)

section \<open>The acceptance test\<close>


section \<open>Reconstruction\<close>

text \<open>
  C1.  A run of the constructed simulator of the scenario, forced to one event, ends with
  \<open>AttributeError\<close> on the first pass of the rejection loop: no trial is accepted and
  nothing is reconstructed.  With the attribute \<open>source\<close> bound and the angular
  resolution of angular\_resolution.py as the detector's, the first event, of the
  \<open>POINT\<close> source, ends with \<open>TypeError\<close> in the dispersion sampler: the true and the
  reconstructed energy have been appended, and no reconstructed direction is produced.
\<close>

theorem run_reconstructs_no_event:
  "run scenario_world constructed_sim (Some 1) 0
     = Some (Inl (AttributeError,
                  constructed_sim\<lparr>Nex := [0, 3], source_weights := [Fin 0, Fin 1],
                    N_total := 1, true_energy := [], reco_energy := [], coordinate := [],
                    ras := [], decs := [], source_label := []\<rparr>))
   \<and> event scenario_world (get_expected_number scenario_world (src_sim tbl)) 0
     = Some (Inl (TypeError,
                  (src_sim tbl)\<lparr>Nex := [0, 3], source_weights := [Fin 0, Fin 1],
                    true_energy := true_energy (src_sim tbl) @ [100],
                    reco_energy := reco_energy (src_sim tbl) @ [200]\<rparr>))"
proof -
  have a: "run scenario_world constructed_sim (Some 1) 0
     = Some (Inl (AttributeError,
                  constructed_sim\<lparr>Nex := [0, 3], source_weights := [Fin 0, Fin 1],
                    N_total := 1, true_energy := [], reco_energy := [], coordinate := [],
                    ras := [], decs := [], source_label := []\<rparr>))"
    apply (simp add: run_def constructed_expected total_count_def py_not_def)
    apply (simp add: event_def constructed_fields scenario_fields scenario_choice)
    apply (subst rejection_loop.simps)
    apply (simp add: throw_def constructed_fields)
    done
  have b: "event scenario_world (get_expected_number scenario_world (src_sim tbl)) 0
     = Some (Inl (TypeError,
                  (src_sim tbl)\<lparr>Nex := [0, 3], source_weights := [Fin 0, Fin 1],
                    true_energy := true_energy (src_sim tbl) @ [100],
                    reco_energy := reco_energy (src_sim tbl) @ [200]\<rparr>))"
    by (simp add: src_sim_expected event_def src_sim_fields scenario_fields scenario_choice
          scenario_rejection_loop record_event_def accepted_trial_def scenario_sources_def
          AngularResolution_sample_def)
  from a b show ?thesis by blast
qed


section \<open>The catalog\<close>

lemma save_datasets:
  "map fst (fst (save self)) = [''true_energy'', ''reco_energy'', ''ra'', ''dec'']"
  "map_of (fst (save self)) ''ra'' = Some (ras self)"
  "map_of (fst (save self)) ''dec'' = Some (decs self)"
  "map_of (fst (save self)) ''true_energy'' = Some (true_energy self)"
  "map_of (fst (save self)) ''reco_energy'' = Some (reco_energy self)"
  by (simp_all add: save_def)


lemma sampling_lengths:
  "sampling k w self g = Some (Inr (st, g')) \<Longrightarrow>
     length (true_energy st) = length (true_energy self) + k
   \<and> length (reco_energy st) = length (reco_energy self) + k
   \<and> length (coordinate st) = length (coordinate self) + k
   \<and> length (ras st) = length (ras self) + k
   \<and> length (decs st) = length (decs self) + k
   \<and> source_label st = source_label self
   \<and> N_total st = N_total self"
proof (induction k arbitrary: self g)
  case 0
  then show ?case by simp
next
  case (Suc k)
  from Suc.prems obtain self1 g1 where
    e: "event w self g = Some (Inr (self1, g1))"
    and s: "sampling k w self1 g1 = Some (Inr (st, g'))"
    by (auto split: option.splits sum.splits)
  from event_steps [OF e] obtain label t gb where
    r: "record_event self label t gb = Inr (self1, g1)" by blast
  from Suc.IH [OF s] record_event_fields [OF r] show ?case by simp
qed

lemma scenario_sampling:
  assumes "sources self = scenario_sources" "source self = Some scenario_sources"
    "detector self = scenario_detector"
    "max_cosz self = 1" "source_weights self = [Fin 0, Fin 1]"
  shows "sampling k scenario_world self g
     = Some (Inr (self\<lparr>true_energy := true_energy self @ replicate k 100,
                        reco_energy := reco_energy self @ replicate k 200,
                        coordinate := coordinate self
                           @ replicate k (SkyCoord (Fin (pi + 1 / 10)) (Fin 0)),
                        ras := ras self @ replicate k pi,
                        decs := decs self @ replicate k 0\<rparr>,
                  g + 7 * k))"
  using assms
proof (induction k arbitrary: self g)
  case 0
  then show ?case by simp
next
  case (Suc k)
  show ?case
    by (simp add: scenario_event [OF Suc.prems] Suc.IH Suc.prems replicate_app_Cons_same)
qed

lemma scenario_run:
  assumes "n \<noteq> 0"
  shows "run scenario_world scenario_sim (Some n) 0
     = Some (Inr (scenario_sim\<lparr>Nex := [0, 3], source_weights := [Fin 0, Fin 1],
                   N_total := n,
                   true_energy := replicate (nat n) 100,
                   reco_energy := replicate (nat n) 200,
                   coordinate := replicate (nat n) (SkyCoord (Fin (pi + 1 / 10)) (Fin 0)),
                   ras := replicate (nat n) pi,
                   decs := replicate (nat n) 0, source_label := []\<rparr>, 7 * nat n))"
  using assms
  by (simp add: run_def scenario_expected total_count_def py_not_def scenario_sampling
        scenario_fields)

text \<open>
  C5.  After a run that returns, the sequences of true energies, reconstructed energies,
  \<open>ra\<close>, \<open>dec\<close> and coordinates each have as many entries as the run had events.
  The sequence of source labels is empty: it is initialised and never appended to, and
  \<open>save\<close> writes no dataset for it.
\<close>

theorem run_catalog_lengths:
  assumes "run w self N g = Some (Inr (st, g'))"
  shows "length (true_energy st) = nat (N_total st)
       \<and> length (reco_energy st) = nat (N_total st)
       \<and> length (ras st) = nat (N_total st)
       \<and> length (decs st) = nat (N_total st)
       \<and> length (coordinate st) = nat (N_total st)
       \<and> source_label st = []
       \<and> map fst (fst (save st)) = [''true_energy'', ''reco_energy'', ''ra'', ''dec'']"
proof -
  from assms obtain n g1 where
    s: "sampling (nat n) w
          ((get_expected_number w self)\<lparr>N_total := n, true_energy := [], reco_energy := [],
             coordinate := [], ras := [], decs := [], source_label := []\<rparr>) g1
        = Some (Inr (st, g'))"
    by (auto simp: run_def Let_def split: sum.splits)
  from sampling_lengths [OF s] show ?thesis by (simp add: save_datasets)
qed


theorem run_catalog_lengths_witness:
  "run scenario_world scenario_sim (Some 2) 0
     = Some (Inr (scenario_sim\<lparr>Nex := [0, 3], source_weights := [Fin 0, Fin 1],
                   N_total := 2,
                   true_energy := replicate (nat 2) 100,
                   reco_energy := replicate (nat 2) 200,
                   coordinate := replicate (nat 2) (SkyCoord (Fin (pi + 1 / 10)) (Fin 0)),
                   ras := replicate (nat 2) pi,
                   decs := replicate (nat 2) 0, source_label := []\<rparr>, 7 * nat 2))
   \<and> length (replicate (nat 2) (100::real)) = 2
   \<and> length ([] :: nat list) \<noteq> 2"
proof -
  have h: "run scenario_world scenario_sim (Some 2) 0
     = Some (Inr (scenario_sim\<lparr>Nex := [0, 3], source_weights := [Fin 0, Fin 1],
                   N_total := 2,
                   true_energy := replicate (nat 2) 100,
                   reco_energy := replicate (nat 2) 200,
                   coordinate := replicate (nat 2) (SkyCoord (Fin (pi + 1 / 10)) (Fin 0)),
                   ras := replicate (nat 2) pi,
                   decs := replicate (nat 2) 0, source_label := []\<rparr>, 7 * nat 2))"
    by (rule scenario_run) simp
  from run_catalog_lengths [OF h] h show ?thesis by simp
qed

section \<open>The total event count\<close>

text \<open>
  C4.  A forced count of \<open>0\<close> is not used: \<^verbatim>\<open>not N\<close> holds of \<open>0\<close> as it does of
  \<open>None\<close>, and the run draws the count from the Poisson distribution, exactly as an
  unforced run does.  In the scenario, where the draw is \<open>3\<close>, the run forced to \<open>0\<close>
  events produces three.
\<close>

theorem forced_zero_count_is_drawn:
  "run w self (Some 0) g = run w self None g
   \<and> total_count w self (Some 0) g = poisson (rnd w) (sum_list (Nex self)) g
   \<and> run scenario_world scenario_sim (Some 0) 0
     = Some (Inr (scenario_sim\<lparr>Nex := [0, 3], source_weights := [Fin 0, Fin 1],
                   N_total := 3,
                   true_energy := [100, 100, 100],
                   reco_energy := [200, 200, 200],
                   coordinate := [SkyCoord (Fin (pi + 1 / 10)) (Fin 0),
                                  SkyCoord (Fin (pi + 1 / 10)) (Fin 0),
                                  SkyCoord (Fin (pi + 1 / 10)) (Fin 0)],
                   ras := [pi, pi, pi],
                   decs := [0, 0, 0], source_label := []\<rparr>, 22))"
proof -
  have a: "run w self (Some 0) g = run w self None g"
    by (simp add: run_def total_count_def py_not_def)
  have b: "total_count w self (Some 0) g = poisson (rnd w) (sum_list (Nex self)) g"
    by (simp add: total_count_def py_not_def)
  have c: "run scenario_world scenario_sim (Some 0) 0
     = Some (Inr (scenario_sim\<lparr>Nex := [0, 3], source_weights := [Fin 0, Fin 1],
                   N_total := 3,
                   true_energy := [100, 100, 100],
                   reco_energy := [200, 200, 200],
                   coordinate := [SkyCoord (Fin (pi + 1 / 10)) (Fin 0),
                                  SkyCoord (Fin (pi + 1 / 10)) (Fin 0),
                                  SkyCoord (Fin (pi + 1 / 10)) (Fin 0)],
                   ras := [pi, pi, pi],
                   decs := [0, 0, 0], source_label := []\<rparr>, 22))"
  proof -
    have "run scenario_world scenario_sim (Some 0) 0
       = Some (Inr (scenario_sim\<lparr>Nex := [0, 3], source_weights := [Fin 0, Fin 1],
                   N_total := 3,
                   true_energy := replicate 3 100,
                   reco_energy := replicate 3 200,
                   coordinate := replicate 3 (SkyCoord (Fin (pi + 1 / 10)) (Fin 0)),
                   ras := replicate 3 pi,
                   decs := replicate 3 0, source_label := []\<rparr>, 22))"
      by (simp add: run_def scenario_expected total_count_def py_not_def scenario_sampling
          scenario_fields scenario_rnd_def)
    then show ?thesis by (simp add: numeral_3_eq_3)
  qed
  from a b c show ?thesis by blast
qed

lemma total_count_forced:
  "n \<noteq> 0 \<Longrightarrow> total_count w self (Some n) g = Inr (n, g)"
  by (simp add: total_count_def py_not_def)

lemma total_count_unforced:
  "total_count w self None g = poisson (rnd w) (sum_list (Nex self)) g"
  by (simp add: total_count_def py_not_def)



section \<open>Per-source yield weighting\<close>

























section \<open>The concentration parameter\<close>

text \<open>
  C8.  \<open>sample\<close> computes no concentration parameter.  Its call of
  \<^verbatim>\<open>_get_angular_resolution\<close> passes no true energy and raises \<open>TypeError\<close>; the
  expression for \<open>kappa\<close> that follows applies \<^verbatim>\<open>np.power\<close> to a single argument (the
  resolution converted by \<^verbatim>\<open>rad2deg\<close>, with no exponent), which raises \<open>TypeError\<close> as
  well, and multiplies the constant by it where \<open>C / ang_res_rad\<^sup>2\<close> divides.
\<close>

theorem sample_raises_before_kappa:
  "AngularResolution_sample self e ra dec g = Inl TypeError
   \<and> call1 (get_angular_resolution self) [] = Inl TypeError
   \<and> np_power [rad2deg r] = Inl TypeError"
  by (simp add: AngularResolution_sample_def)

text \<open>
  A detector whose angular resolution is an \<open>AngularResolution\<close> object therefore
  records no event of a \<open>POINT\<close> source: the exception leaves \<open>run\<close>, with the two
  energies of the event appended and nothing else.
\<close>

lemma record_event_point_raises:
  assumes "source self = Some srcs" "label < length srcs"
    and "source_type (srcs ! label) = POINT"
    and "angular_resolution_sample (detector self) = AngularResolution_sample tbl"
  shows "record_event self label t g =
     Inl (TypeError,
          self\<lparr>true_energy := true_energy self @ [Etrue t],
               reco_energy := reco_energy self
                  @ [fst (energy_resolution_sample (detector self) (Etrue t) g)]\<rparr>)"
  using assms
  by (simp add: record_event_def Let_def AngularResolution_sample_def split: prod.splits)

end
